theory Spec2Isabelle
  imports Complex_Main
begin

section \<open>Shipment tracking: route resolution and geocoding\<close>

text \<open>
  A shallow embedding of \<^verbatim>\<open>src/components/ShipmentMap.tsx\<close>, \<^verbatim>\<open>src/lib/geocode.ts\<close>
  and the tracking page. JavaScript numbers are modelled as real numbers: rounding,
  NaN and the infinities of IEEE doubles are outside the model. React state is a
  record that every setter updates; an awaited promise is the value it settles to,
  a rejection being \<open>Inl\<close> of a sum.
\<close>

subsection \<open>Data model\<close>

text \<open>\<^verbatim>\<open>type Coords = { lat: number; lon: number }\<close>\<close>

record Coords =
  lat :: real
  lon :: real

text \<open>A \<^verbatim>\<open>LatLngExpression\<close> as the component builds it: the array \<^verbatim>\<open>[lat, lon]\<close>.\<close>

type_synonym LatLng = "real \<times> real"

text \<open>Everything that is thrown, or that a promise is rejected with.\<close>

datatype exn =
    NetworkError
  | JsonError
  | TypeError
  | FailedToFetchRouteData
  | NoRouteFound
  | AddressNotFound

text \<open>
  The routing provider's answer. A route's geometry is a list of \<^verbatim>\<open>[lon, lat]\<close>
  pairs, \<open>None\<close> when \<^verbatim>\<open>geometry.coordinates\<close> cannot be read; \<open>routes\<close> is \<open>None\<close>
  when the field is absent.
\<close>

datatype osrm_route = OsrmRoute (coordinates: "(real \<times> real) list option")

record osrm_data =
  code :: string
  routes :: "osrm_route list option"

text \<open>
  What \<^verbatim>\<open>await fetch(...)\<close> and \<^verbatim>\<open>await response.json()\<close> settle to: the fetch is
  rejected, or there is a response with its \<^verbatim>\<open>ok\<close> flag whose body parses to the
  provider's data or is rejected.
\<close>

datatype osrm_fetch =
    FetchRejected
  | Response (ok: bool) (json: "osrm_data option")

text \<open>The state of the \<^verbatim>\<open>ShipmentMap\<close> component (its four \<^verbatim>\<open>useState\<close> cells).\<close>

record map_state =
  routeData :: "LatLng list"
  completedRoute :: "LatLng list"
  isLoading :: bool
  error :: string

definition initial_state :: map_state where
  "initial_state = \<lparr>routeData = [], completedRoute = [], isLoading = True, error = ''''\<rparr>"

subsection \<open>The fallback route\<close>

definition steps :: nat where
  "steps = 20"

text \<open>The body of the loop of \<^verbatim>\<open>generateFallbackRoute\<close> at counter \<open>i\<close>.\<close>

definition fallbackPoint :: "Coords \<Rightarrow> Coords \<Rightarrow> nat \<Rightarrow> LatLng" where
  "fallbackPoint from to i =
     (let t = real i / real steps;
          lat' = lat from * (1 - t) + lat to * t;
          lon' = lon from * (1 - t) + lon to * t;
          latOffset = (sin (pi * t) * 0.02) * (lon to - lon from);
          lonOffset = (sin (pi * t) * 0.02) * (lat from - lat to)
      in (lat' + latOffset, lon' + lonOffset))"

text \<open>\<^verbatim>\<open>for (let i = 0; i <= steps; i++) points.push(...)\<close>\<close>

definition generateFallbackRoute :: "Coords \<Rightarrow> Coords \<Rightarrow> LatLng list" where
  "generateFallbackRoute from to = map (fallbackPoint from to) [0..<Suc steps]"

subsection \<open>The completed prefix\<close>

text \<open>\<^verbatim>\<open>Number.MAX_VALUE\<close>, the largest finite double.\<close>

definition MAX_VALUE :: real where
  "MAX_VALUE = (2 ^ 53 - 1) * 2 ^ 971"

definition distance :: "Coords \<Rightarrow> LatLng \<Rightarrow> real" where
  "distance current point = sqrt ((lat current - fst point) ^ 2 + (lon current - snd point) ^ 2)"

text \<open>
  The \<^verbatim>\<open>forEach\<close> of \<^verbatim>\<open>calculateCompletedRoute\<close>: \<open>index\<close> is the index of the head
  of the remaining points, the pair is \<^verbatim>\<open>(closestPointIndex, closestDistance)\<close>.
\<close>

primrec scanClosest :: "Coords \<Rightarrow> LatLng list \<Rightarrow> nat \<Rightarrow> nat \<times> real \<Rightarrow> nat \<times> real" where
  "scanClosest current [] index closest = closest"
| "scanClosest current (point # points) index closest =
     scanClosest current points (Suc index)
       (if distance current point < snd closest then (index, distance current point)
        else closest)"

definition closestPointIndex :: "Coords \<Rightarrow> LatLng list \<Rightarrow> nat" where
  "closestPointIndex current fullRoute = fst (scanClosest current fullRoute 0 (0, MAX_VALUE))"

text \<open>\<^verbatim>\<open>fullRoute.slice(0, n)\<close> is \<open>take n fullRoute\<close>.\<close>

definition calculateCompletedRoute :: "Coords option \<Rightarrow> LatLng list \<Rightarrow> map_state \<Rightarrow> map_state" where
  "calculateCompletedRoute current fullRoute s =
     (case current of
        None \<Rightarrow> s
      | Some c \<Rightarrow>
          if fullRoute = [] then s
          else s\<lparr>completedRoute := take (closestPointIndex c fullRoute + 1) fullRoute\<rparr>)"

text \<open>\<^verbatim>\<open>Math.floor(route.length * 0.6)\<close>, over the reals.\<close>

definition completionPoint :: "LatLng list \<Rightarrow> nat" where
  "completionPoint route = nat \<lfloor>real (length route) * 0.6\<rfloor>"

subsection \<open>Route resolution\<close>

text \<open>\<^verbatim>\<open>coord => [coord[1], coord[0]]\<close>\<close>

definition toLatLng :: "real \<times> real \<Rightarrow> LatLng" where
  "toLatLng coord = (snd coord, fst coord)"

text \<open>
  The \<^verbatim>\<open>try\<close> block of \<^verbatim>\<open>fetchRoadRoute\<close> after \<^verbatim>\<open>setIsLoading(true)\<close>: \<open>Inl\<close> is
  what it throws, and every throw comes before the first later setter.
\<close>

definition fetchRoadRoute_try :: "Coords option \<Rightarrow> osrm_fetch \<Rightarrow> map_state \<Rightarrow> exn + map_state" where
  "fetchRoadRoute_try current response s =
     (case response of
        FetchRejected \<Rightarrow> Inl NetworkError
      | Response ok' body \<Rightarrow>
          if ok' then
            (case body of
               None \<Rightarrow> Inl JsonError
             | Some data \<Rightarrow>
                 if code data = ''Ok'' then
                   (case routes data of
                      None \<Rightarrow> Inl NoRouteFound
                    | Some [] \<Rightarrow> Inl NoRouteFound
                    | Some (route # _) \<Rightarrow>
                        (case coordinates route of
                           None \<Rightarrow> Inl TypeError
                         | Some geometry \<Rightarrow>
                             (let coords = map toLatLng geometry;
                                  s1 = s\<lparr>routeData := coords\<rparr>
                              in case current of
                                   Some c \<Rightarrow> Inr (calculateCompletedRoute current coords s1)
                                 | None \<Rightarrow>
                                     Inr (s1\<lparr>completedRoute :=
                                              take (completionPoint coords) coords\<rparr>))))
                 else Inl NoRouteFound)
          else Inl FailedToFetchRouteData)"

text \<open>The \<^verbatim>\<open>catch\<close> block of \<^verbatim>\<open>fetchRoadRoute\<close>.\<close>

definition fetchRoadRoute_catch :: "Coords \<Rightarrow> Coords \<Rightarrow> Coords option \<Rightarrow> map_state \<Rightarrow> map_state" where
  "fetchRoadRoute_catch from to current s =
     (let s1 = s\<lparr>error := ''Could not load road route data''\<rparr>;
          fallbackRoute = generateFallbackRoute from to;
          s2 = s1\<lparr>routeData := fallbackRoute\<rparr>
      in case current of
           Some c \<Rightarrow> s2\<lparr>completedRoute := take (completionPoint fallbackRoute) fallbackRoute\<rparr>
         | None \<Rightarrow> s2)"

text \<open>\<^verbatim>\<open>fetchRoadRoute\<close>: try, catch, finally.\<close>

definition fetchRoadRoute :: "Coords \<Rightarrow> Coords \<Rightarrow> Coords option \<Rightarrow> osrm_fetch \<Rightarrow> map_state \<Rightarrow> map_state" where
  "fetchRoadRoute from to current response s =
     (let s1 = s\<lparr>isLoading := True\<rparr>;
          s2 = (case fetchRoadRoute_try current response s1 of
                  Inr s' \<Rightarrow> s'
                | Inl err \<Rightarrow> fetchRoadRoute_catch from to current s1)
      in s2\<lparr>isLoading := False\<rparr>)"

subsection \<open>Geocoding\<close>

text \<open>
  One candidate of the geocoder's answer: its \<^verbatim>\<open>lat\<close> and \<^verbatim>\<open>lon\<close> fields, which
  are strings.
\<close>

datatype candidate = Candidate (lat_text: string) (lon_text: string)

text \<open>
  The parsed body of the search response: \<^verbatim>\<open>null\<close>, an array of candidates, or an
  object with no \<^verbatim>\<open>length\<close>.
\<close>

datatype search_body = JNull | JArray "candidate list" | JObject

text \<open>
  What \<^verbatim>\<open>await fetch(url)\<close> followed by \<^verbatim>\<open>await res.json()\<close> settles to: either
  promise is rejected, or the body is there.
\<close>

datatype search_result = SearchRejected | BodyRejected | Body search_body

text \<open>
  \<^verbatim>\<open>getCoordinatesFromAddress\<close> of \<^verbatim>\<open>src/lib/geocode.ts\<close>. \<^verbatim>\<open>parseFloat\<close> is a
  parameter. \<^verbatim>\<open>data && data.length > 0\<close> is false for \<^verbatim>\<open>null\<close>, for the empty
  array and for an object with no \<^verbatim>\<open>length\<close>.
\<close>

definition getCoordinatesFromAddress :: "(string \<Rightarrow> real) \<Rightarrow> search_result \<Rightarrow> exn + Coords" where
  "getCoordinatesFromAddress parseFloat res =
     (case res of
        SearchRejected \<Rightarrow> Inl NetworkError
      | BodyRejected \<Rightarrow> Inl JsonError
      | Body data \<Rightarrow>
          (case data of
             JArray (c # _) \<Rightarrow>
               Inr \<lparr>lat = parseFloat (lat_text c), lon = parseFloat (lon_text c)\<rparr>
           | JArray [] \<Rightarrow> Inl AddressNotFound
           | JNull \<Rightarrow> Inl AddressNotFound
           | JObject \<Rightarrow> Inl AddressNotFound))"

text \<open>
  The \<^verbatim>\<open>try\<close> block of \<^verbatim>\<open>getCoords\<close> in the tracking page: \<^verbatim>\<open>data.length\<close> on
  \<^verbatim>\<open>null\<close> throws a TypeError.
\<close>

definition getCoords_try :: "(string \<Rightarrow> real) \<Rightarrow> search_result \<Rightarrow> exn + Coords option" where
  "getCoords_try parseFloat res =
     (case res of
        SearchRejected \<Rightarrow> Inl NetworkError
      | BodyRejected \<Rightarrow> Inl JsonError
      | Body data \<Rightarrow>
          (case data of
             JNull \<Rightarrow> Inl TypeError
           | JArray (c # _) \<Rightarrow>
               Inr (Some \<lparr>lat = parseFloat (lat_text c), lon = parseFloat (lon_text c)\<rparr>)
           | JArray [] \<Rightarrow> Inr None
           | JObject \<Rightarrow> Inr None))"

text \<open>
  \<^verbatim>\<open>getCoords\<close>: the \<^verbatim>\<open>catch\<close> block logs and returns \<^verbatim>\<open>null\<close>. The result is what
  the promise of the async function settles to, \<open>Inl\<close> a rejection.
\<close>

definition getCoords :: "(string \<Rightarrow> real) \<Rightarrow> search_result \<Rightarrow> exn + Coords option" where
  "getCoords parseFloat res =
     (case getCoords_try parseFloat res of
        Inr coords \<Rightarrow> Inr coords
      | Inl err \<Rightarrow> Inr None)"

subsection \<open>The tracking page\<close>

text \<open>The fields of the shipment record that the map depends on.\<close>

record shipment =
  consignmentNumber :: string
  origin :: string
  destination :: string
  currentLocation :: string
  fromCoords :: "Coords option"
  toCoords :: "Coords option"
  currentCoords :: "Coords option"

definition mockShipmentData :: shipment where
  "mockShipmentData =
     \<lparr>consignmentNumber = ''SHP12345678'',
      origin = ''New York, NY'',
      destination = ''San Francisco, CA'',
      currentLocation = ''Denver, CO'',
      fromCoords = None, toCoords = None, currentCoords = None\<rparr>"

text \<open>
  The state of \<^verbatim>\<open>TrackingPage\<close> that \<^verbatim>\<open>fetchCoordinates\<close> touches; \<open>pageError\<close> is
  the page's \<^verbatim>\<open>error\<close> cell.
\<close>

record page_state =
  shipmentData :: "shipment option"
  pageError :: string
  mapLoaded :: bool

text \<open>
  The \<^verbatim>\<open>try\<close> block of \<^verbatim>\<open>fetchCoordinates\<close>. The geocoder is a function from the
  place name to what the search settles to; each \<^verbatim>\<open>await\<close> passes a rejection on.
\<close>

definition fetchCoordinates_try ::
  "(string \<Rightarrow> real) \<Rightarrow> (string \<Rightarrow> search_result) \<Rightarrow> page_state \<Rightarrow> exn + page_state" where
  "fetchCoordinates_try parseFloat search s =
     (case getCoords parseFloat (search (origin mockShipmentData)) of
        Inl err \<Rightarrow> Inl err
      | Inr origin' \<Rightarrow>
          (case getCoords parseFloat (search (destination mockShipmentData)) of
             Inl err \<Rightarrow> Inl err
           | Inr destination' \<Rightarrow>
               (case getCoords parseFloat (search (currentLocation mockShipmentData)) of
                  Inl err \<Rightarrow> Inl err
                | Inr current' \<Rightarrow>
                    Inr (s\<lparr>shipmentData :=
                              (case shipmentData s of
                                 None \<Rightarrow> None
                               | Some prev \<Rightarrow>
                                   Some (prev\<lparr>fromCoords := origin',
                                              toCoords := destination',
                                              currentCoords := current'\<rparr>)),
                            mapLoaded := True\<rparr>))))"

definition fetchCoordinates ::
  "(string \<Rightarrow> real) \<Rightarrow> (string \<Rightarrow> search_result) \<Rightarrow> page_state \<Rightarrow> page_state" where
  "fetchCoordinates parseFloat search s =
     (case fetchCoordinates_try parseFloat search s of
        Inr s' \<Rightarrow> s'
      | Inl err \<Rightarrow> s\<lparr>pageError := ''Could not load map coordinates''\<rparr>)"

text \<open>
  The guard of the map card in the page's JSX:
  \<^verbatim>\<open>shipmentData && (... shipmentData.fromCoords && shipmentData.toCoords && ...)\<close>.
\<close>

definition mapCardRendered :: "page_state \<Rightarrow> bool" where
  "mapCardRendered s =
     (case shipmentData s of
        None \<Rightarrow> False
      | Some d \<Rightarrow>
          (case fromCoords d of
             None \<Rightarrow> False
           | Some f \<Rightarrow> (case toCoords d of None \<Rightarrow> False | Some t \<Rightarrow> True)))"

section \<open>Properties\<close>

subsection \<open>The fallback route\<close>

lemma length_generateFallbackRoute: "length (generateFallbackRoute from to) = 21"
  by (simp add: generateFallbackRoute_def steps_def)

lemma generateFallbackRoute_not_Nil: "generateFallbackRoute from to \<noteq> []"
  by (simp add: generateFallbackRoute_def)

lemma fallbackPoint_first: "fallbackPoint from to 0 = (lat from, lon from)"
  by (simp add: fallbackPoint_def)



lemma hd_generateFallbackRoute: "hd (generateFallbackRoute from to) = (lat from, lon from)"
proof -
  have "hd (generateFallbackRoute from to) = generateFallbackRoute from to ! 0"
    using generateFallbackRoute_not_Nil by (rule hd_conv_nth)
  also have "\<dots> = fallbackPoint from to 0"
    unfolding generateFallbackRoute_def by (simp only: nth_map_upt) simp
  finally show ?thesis
    by (simp add: fallbackPoint_first)
qed




subsection \<open>The nearest route point\<close>

lemma MAX_VALUE_pos: "0 < MAX_VALUE"
  by (simp add: MAX_VALUE_def)

lemma distance_nonneg: "0 \<le> distance c p"
  by (simp add: distance_def)

lemma distance_eq_0_iff: "distance c p = 0 \<longleftrightarrow> p = (lat c, lon c)"
proof -
  have "distance c p = 0 \<longleftrightarrow> (lat c - fst p)\<^sup>2 + (lon c - snd p)\<^sup>2 = 0"
    by (simp add: distance_def)
  also have "\<dots> \<longleftrightarrow> lat c - fst p = 0 \<and> lon c - snd p = 0"
    by (simp add: sum_power2_eq_zero_iff)
  also have "\<dots> \<longleftrightarrow> p = (lat c, lon c)"
    by (cases p) auto
  finally show ?thesis .
qed

lemma scanClosest_keep:
  "(\<And>q. q \<in> set points \<Longrightarrow> snd closest \<le> distance c q)
   \<Longrightarrow> scanClosest c points index closest = closest"
proof (induction points arbitrary: index)
  case Nil
  show ?case by simp
next
  case (Cons p ps)
  have "\<not> distance c p < snd closest"
    using Cons.prems [of p] by simp
  moreover have "scanClosest c ps (Suc index) closest = closest"
    using Cons.prems by (intro Cons.IH) simp
  ultimately show ?case by simp
qed

lemma scanClosest_first_min:
  assumes "k < length points"
    and "distance c (points ! k) < snd closest"
    and "\<And>j. j < length points \<Longrightarrow> distance c (points ! k) \<le> distance c (points ! j)"
    and "\<And>j. j < k \<Longrightarrow> distance c (points ! k) < distance c (points ! j)"
  shows "scanClosest c points index closest = (index + k, distance c (points ! k))"
  using assms
proof (induction points arbitrary: k index closest)
  case Nil
  then show ?case by simp
next
  case (Cons p ps)
  show ?case
  proof (cases k)
    case 0
    have keep: "scanClosest c ps (Suc index) (index, distance c p) = (index, distance c p)"
    proof (rule scanClosest_keep)
      fix q assume "q \<in> set ps"
      then obtain j where "j < length ps" "ps ! j = q"
        by (auto simp: in_set_conv_nth)
      then show "snd (index, distance c p) \<le> distance c q"
        using Cons.prems(3) [of "Suc j"] 0 by simp
    qed
    from Cons.prems(2) 0 have "distance c p < snd closest" by simp
    with keep 0 show ?thesis by simp
  next
    case (Suc k')
    let ?closest' = "if distance c p < snd closest then (index, distance c p) else closest"
    have lt_p: "distance c (ps ! k') < distance c p"
      using Cons.prems(4) [of 0] Suc by simp
    have "scanClosest c ps (Suc index) ?closest' = (Suc index + k', distance c (ps ! k'))"
    proof (rule Cons.IH)
      show "k' < length ps" using Cons.prems(1) Suc by simp
      show "distance c (ps ! k') < snd ?closest'"
        using lt_p Cons.prems(2) Suc by simp
      show "distance c (ps ! k') \<le> distance c (ps ! j)" if "j < length ps" for j
        using Cons.prems(3) [of "Suc j"] that Suc by simp
      show "distance c (ps ! k') < distance c (ps ! j)" if "j < k'" for j
        using Cons.prems(4) [of "Suc j"] that Suc by simp
    qed
    with Suc show ?thesis by simp
  qed
qed

lemma closestPointIndex_first_min:
  assumes "k < length route"
    and "distance c (route ! k) < MAX_VALUE"
    and "\<forall>j<length route. distance c (route ! k) \<le> distance c (route ! j)"
    and "\<forall>j<k. distance c (route ! k) < distance c (route ! j)"
  shows "closestPointIndex c route = k"
  using scanClosest_first_min [of k route c "(0, MAX_VALUE)" 0] assms
  by (simp add: closestPointIndex_def)

lemma closestPointIndex_first_match:
  assumes "k < length route"
    and "route ! k = (lat c, lon c)"
    and "\<forall>j<k. route ! j \<noteq> (lat c, lon c)"
  shows "closestPointIndex c route = k"
proof (rule closestPointIndex_first_min [OF assms(1)])
  have zero: "distance c (route ! k) = 0"
    using assms(2) by (simp add: distance_eq_0_iff)
  show "distance c (route ! k) < MAX_VALUE"
    using zero MAX_VALUE_pos by simp
  show "\<forall>j<length route. distance c (route ! k) \<le> distance c (route ! j)"
    using zero distance_nonneg by simp
  show "\<forall>j<k. distance c (route ! k) < distance c (route ! j)"
  proof (intro allI impI)
    fix j assume "j < k"
    then have "distance c (route ! j) \<noteq> 0"
      using assms(3) by (simp add: distance_eq_0_iff)
    then show "distance c (route ! k) < distance c (route ! j)"
      using zero distance_nonneg [of c "route ! j"] by simp
  qed
qed




subsection \<open>Routing failures\<close>

lemma completionPoint_div: "completionPoint route = (3 * length route) div 5"
proof -
  have "real (length route) * 0.6 = real (3 * length route) / real 5"
    by simp
  then have "\<lfloor>real (length route) * 0.6\<rfloor> = int ((3 * length route) div 5)"
    by (simp only: floor_divide_of_nat_eq)
  then show ?thesis
    by (simp add: completionPoint_def)
qed

lemma fetchRoadRoute_failure:
  assumes "fetchRoadRoute_try current response (s\<lparr>isLoading := True\<rparr>) = Inl err"
  shows "fetchRoadRoute from to current response s
           = (fetchRoadRoute_catch from to current (s\<lparr>isLoading := True\<rparr>))\<lparr>isLoading := False\<rparr>"
  using assms by (simp add: fetchRoadRoute_def)

lemma routeData_catch: "routeData (fetchRoadRoute_catch from to current s) = generateFallbackRoute from to"
  by (simp add: fetchRoadRoute_catch_def Let_def split: option.split)

lemma completedRoute_catch_Some:
  "completedRoute (fetchRoadRoute_catch from to (Some c) s)
     = take (completionPoint (generateFallbackRoute from to)) (generateFallbackRoute from to)"
  by (simp add: fetchRoadRoute_catch_def Let_def)

lemma completedRoute_catch_None:
  "completedRoute (fetchRoadRoute_catch from to None s) = completedRoute s"
  by (simp add: fetchRoadRoute_catch_def Let_def)

lemma completionPoint_fallback: "completionPoint (generateFallbackRoute from to) = 12"
  by (simp add: completionPoint_div length_generateFallbackRoute)

lemma try_FetchRejected: "fetchRoadRoute_try current FetchRejected s = Inl NetworkError"
  by (simp add: fetchRoadRoute_try_def)

lemma try_not_ok: "fetchRoadRoute_try current (Response False body) s = Inl FailedToFetchRouteData"
  by (simp add: fetchRoadRoute_try_def)

lemma try_code_not_Ok:
  "code d \<noteq> ''Ok'' \<Longrightarrow> fetchRoadRoute_try current (Response True (Some d)) s = Inl NoRouteFound"
  by (simp add: fetchRoadRoute_try_def)

lemma try_no_routes:
  "routes d = Some [] \<Longrightarrow> fetchRoadRoute_try current (Response True (Some d)) s = Inl NoRouteFound"
  by (simp add: fetchRoadRoute_try_def)

text \<open>
  Claim C3. On a network error, a response that is not OK, a provider status other
  than \<^verbatim>\<open>"Ok"\<close> or an empty route list, the \<^verbatim>\<open>try\<close> block throws, the resolver
  returns a state all the same, and the full route of that state is the synthesized
  fallback route of 21 points, never the empty sequence (whether or not origin and
  destination coincide).
\<close>

theorem routing_failure_yields_fallback:
  assumes "response = FetchRejected
           \<or> response = Response False body
           \<or> (response = Response True (Some d) \<and> code d \<noteq> ''Ok'')
           \<or> (response = Response True (Some d) \<and> routes d = Some [])"
  shows "(\<exists>err. fetchRoadRoute_try current response (s\<lparr>isLoading := True\<rparr>) = Inl err)
       \<and> routeData (fetchRoadRoute from to current response s) = generateFallbackRoute from to
       \<and> length (routeData (fetchRoadRoute from to current response s)) = 21
       \<and> routeData (fetchRoadRoute from to current response s) \<noteq> []"
proof -
  from assms obtain err where
    thrown: "fetchRoadRoute_try current response (s\<lparr>isLoading := True\<rparr>) = Inl err"
    using try_FetchRejected try_not_ok try_code_not_Ok try_no_routes by metis
  have "routeData (fetchRoadRoute from to current response s) = generateFallbackRoute from to"
    by (simp add: fetchRoadRoute_failure [OF thrown] routeData_catch)
  with thrown show ?thesis
    by (simp add: length_generateFallbackRoute generateFallbackRoute_not_Nil)
qed

theorem routing_failure_yields_fallback_witness:
  "length (routeData (fetchRoadRoute \<lparr>lat = 0, lon = 0\<rparr> \<lparr>lat = 1, lon = 1\<rparr> None
      (Response True (Some \<lparr>code = ''NoRoute'', routes = None\<rparr>)) initial_state)) = 21
   \<and> routeData (fetchRoadRoute \<lparr>lat = 0, lon = 0\<rparr> \<lparr>lat = 1, lon = 1\<rparr> None
      (Response True (Some \<lparr>code = ''Ok'', routes = Some []\<rparr>)) initial_state) \<noteq> []
   \<and> routeData (fetchRoadRoute \<lparr>lat = 0, lon = 0\<rparr> \<lparr>lat = 1, lon = 1\<rparr> None
      FetchRejected initial_state) \<noteq> []
   \<and> routeData (fetchRoadRoute \<lparr>lat = 0, lon = 0\<rparr> \<lparr>lat = 1, lon = 1\<rparr> None
      (Response False None) initial_state) \<noteq> []"
proof -
  let ?d1 = "\<lparr>code = ''NoRoute'', routes = None\<rparr>"
  let ?d2 = "\<lparr>code = ''Ok'', routes = Some []\<rparr>"
  have h1: "Response True (Some ?d1) = FetchRejected
            \<or> Response True (Some ?d1) = Response False None
            \<or> (Response True (Some ?d1) = Response True (Some ?d1) \<and> code ?d1 \<noteq> ''Ok'')
            \<or> (Response True (Some ?d1) = Response True (Some ?d1) \<and> routes ?d1 = Some [])"
    by simp
  have h2: "Response True (Some ?d2) = FetchRejected
            \<or> Response True (Some ?d2) = Response False None
            \<or> (Response True (Some ?d2) = Response True (Some ?d2) \<and> code ?d2 \<noteq> ''Ok'')
            \<or> (Response True (Some ?d2) = Response True (Some ?d2) \<and> routes ?d2 = Some [])"
    by simp
  have h3: "FetchRejected = FetchRejected
            \<or> FetchRejected = Response False None
            \<or> (FetchRejected = Response True (Some ?d1) \<and> code ?d1 \<noteq> ''Ok'')
            \<or> (FetchRejected = Response True (Some ?d1) \<and> routes ?d1 = Some [])"
    by simp
  have h4: "Response False None = FetchRejected
            \<or> Response False None = Response False None
            \<or> (Response False None = Response True (Some ?d1) \<and> code ?d1 \<noteq> ''Ok'')
            \<or> (Response False None = Response True (Some ?d1) \<and> routes ?d1 = Some [])"
    by simp
  show ?thesis
    using routing_failure_yields_fallback [OF h1] routing_failure_yields_fallback [OF h2]
      routing_failure_yields_fallback [OF h3] routing_failure_yields_fallback [OF h4]
    by blast
qed

subsection \<open>Fetched routes\<close>

lemma try_fetched:
  "fetchRoadRoute_try current
      (Response True (Some \<lparr>code = ''Ok'', routes = Some (OsrmRoute (Some geometry) # rs)\<rparr>)) s
   = Inr (case current of
            Some c \<Rightarrow> calculateCompletedRoute current (map toLatLng geometry)
                        (s\<lparr>routeData := map toLatLng geometry\<rparr>)
          | None \<Rightarrow> s\<lparr>routeData := map toLatLng geometry,
                      completedRoute := take (completionPoint (map toLatLng geometry))
                                          (map toLatLng geometry)\<rparr>)"
  by (simp add: fetchRoadRoute_try_def Let_def split: option.split)

lemma routeData_calculateCompletedRoute:
  "routeData (calculateCompletedRoute current route s) = routeData s"
  by (simp add: calculateCompletedRoute_def split: option.split)

lemma routeData_fetched:
  "routeData (fetchRoadRoute from to current
      (Response True (Some \<lparr>code = ''Ok'', routes = Some (OsrmRoute (Some geometry) # rs)\<rparr>)) s)
   = map toLatLng geometry"
  by (simp add: fetchRoadRoute_def try_fetched routeData_calculateCompletedRoute Let_def
      split: option.split)

text \<open>
  Claim C6. On a fetched route the full route has the length of the provider's
  geometry, and its point at every index \<open>i\<close> is the provider's pair at \<open>i\<close> with the
  two components swapped: \<open>(lon, lat)\<close> becomes \<open>(lat, lon)\<close>, in the same order.
\<close>

theorem provider_order_swap:
  "length (routeData (fetchRoadRoute from to current
      (Response True (Some \<lparr>code = ''Ok'', routes = Some (OsrmRoute (Some geometry) # rs)\<rparr>)) s))
     = length geometry
   \<and> (\<forall>i<length geometry.
        routeData (fetchRoadRoute from to current
          (Response True (Some \<lparr>code = ''Ok'', routes = Some (OsrmRoute (Some geometry) # rs)\<rparr>)) s) ! i
        = (snd (geometry ! i), fst (geometry ! i)))"
  by (simp add: routeData_fetched toLatLng_def)

theorem provider_order_swap_witness:
  "routeData (fetchRoadRoute \<lparr>lat = 0, lon = 0\<rparr> \<lparr>lat = 1, lon = 1\<rparr> None
      (Response True (Some \<lparr>code = ''Ok'', routes = Some [OsrmRoute (Some [(10, 1), (20, 2)])]\<rparr>))
      initial_state)
   = [(1, 10), (2, 20)]"
proof -
  let ?rd = "routeData (fetchRoadRoute \<lparr>lat = 0, lon = 0\<rparr> \<lparr>lat = 1, lon = 1\<rparr> None
      (Response True (Some \<lparr>code = ''Ok'', routes = Some [OsrmRoute (Some [(10, 1), (20, 2)])]\<rparr>))
      initial_state)"
  let ?g = "[(10, 1), (20, 2)] :: (real \<times> real) list"
  have swap: "length ?rd = length ?g \<and> (\<forall>i<length ?g. ?rd ! i = (snd (?g ! i), fst (?g ! i)))"
    using provider_order_swap [of "\<lparr>lat = 0, lon = 0\<rparr>" "\<lparr>lat = 1, lon = 1\<rparr>" None
        ?g "[]" initial_state] .
  show ?thesis
  proof (rule nth_equalityI)
    show "length ?rd = length [(1, 10), (2, 20 :: real)]"
      using swap by simp
    fix i assume "i < length ?rd"
    then have "i = 0 \<or> i = 1"
      using swap by auto
    then show "?rd ! i = [(1, 10), (2, 20)] ! i"
      using swap by auto
  qed
qed

subsection \<open>The completed prefix on the two paths\<close>

lemma fetched_without_current:
  "completedRoute (fetchRoadRoute from to None
      (Response True (Some \<lparr>code = ''Ok'', routes = Some (OsrmRoute (Some geometry) # rs)\<rparr>)) s)
   = take (completionPoint (map toLatLng geometry)) (map toLatLng geometry)"
  by (simp add: fetchRoadRoute_def try_fetched Let_def)

lemma completionPoint_le: "completionPoint route \<le> length route"
  by (simp add: completionPoint_div)

lemma fetched_without_current_length:
  "length (completedRoute (fetchRoadRoute from to None
      (Response True (Some \<lparr>code = ''Ok'', routes = Some (OsrmRoute (Some geometry) # rs)\<rparr>)) s))
   = nat \<lfloor>real (length geometry) * 0.6\<rfloor>"
proof -
  have "length (take (completionPoint (map toLatLng geometry)) (map toLatLng geometry))
          = completionPoint (map toLatLng geometry)"
    using completionPoint_le [of "map toLatLng geometry"] by simp
  also have "\<dots> = nat \<lfloor>real (length geometry) * 0.6\<rfloor>"
    by (simp add: completionPoint_def)
  finally show ?thesis
    by (simp only: fetched_without_current)
qed

lemma fallback_with_current:
  "completedRoute (fetchRoadRoute from to (Some c) FetchRejected s)
     = take 12 (generateFallbackRoute from to)"
  by (simp add: fetchRoadRoute_failure [OF try_FetchRejected] completedRoute_catch_Some
      completionPoint_fallback)

lemma fallback_without_current:
  "completedRoute (fetchRoadRoute from to None FetchRejected s) = completedRoute s"
  by (simp add: fetchRoadRoute_failure [OF try_FetchRejected] completedRoute_catch_None)

lemma nearest_to_origin:
  "completedRoute (calculateCompletedRoute (Some from) (generateFallbackRoute from to) s)
     = take 1 (generateFallbackRoute from to)"
proof -
  let ?fb = "generateFallbackRoute from to"
  have k: "0 < length ?fb"
    by (simp add: length_generateFallbackRoute)
  have "?fb ! 0 = (lat from, lon from)"
    using hd_generateFallbackRoute [of "from" to] generateFallbackRoute_not_Nil [of "from" to]
    by (simp add: hd_conv_nth)
  then have "closestPointIndex from ?fb = 0"
    using closestPointIndex_first_match [OF k, of "from"] by simp
  then show ?thesis
    by (simp add: calculateCompletedRoute_def generateFallbackRoute_not_Nil)
qed

text \<open>
  Claim C1 says that the fallback path computes the completed prefix by the rule of
  the fetched path. At a rejected fetch from \<open>(0, 0)\<close> to \<open>(1, 1)\<close> the code does
  otherwise. With the current coordinate at the origin, the nearest synthesized point
  is point 0 and the rule gives the first point only, but the \<^verbatim>\<open>catch\<close> block sets
  the first 12 points. With no current coordinate the rule gives the first 12 points,
  but the \<^verbatim>\<open>catch\<close> block sets nothing and the completed route stays empty.
\<close>

theorem fallback_prefix_ignores_rule:
  "completedRoute (fetchRoadRoute \<lparr>lat = 0, lon = 0\<rparr> \<lparr>lat = 1, lon = 1\<rparr>
        (Some \<lparr>lat = 0, lon = 0\<rparr>) FetchRejected initial_state)
     = take 12 (generateFallbackRoute \<lparr>lat = 0, lon = 0\<rparr> \<lparr>lat = 1, lon = 1\<rparr>)
   \<and> completedRoute (calculateCompletedRoute (Some \<lparr>lat = 0, lon = 0\<rparr>)
        (generateFallbackRoute \<lparr>lat = 0, lon = 0\<rparr> \<lparr>lat = 1, lon = 1\<rparr>) initial_state)
     = take 1 (generateFallbackRoute \<lparr>lat = 0, lon = 0\<rparr> \<lparr>lat = 1, lon = 1\<rparr>)
   \<and> length (take 12 (generateFallbackRoute \<lparr>lat = 0, lon = 0\<rparr> \<lparr>lat = 1, lon = 1\<rparr>)) = 12
   \<and> length (take 1 (generateFallbackRoute \<lparr>lat = 0, lon = 0\<rparr> \<lparr>lat = 1, lon = 1\<rparr>)) = 1
   \<and> completedRoute (fetchRoadRoute \<lparr>lat = 0, lon = 0\<rparr> \<lparr>lat = 1, lon = 1\<rparr>
        None FetchRejected initial_state) = []
   \<and> length (take (completionPoint (generateFallbackRoute \<lparr>lat = 0, lon = 0\<rparr> \<lparr>lat = 1, lon = 1\<rparr>))
        (generateFallbackRoute \<lparr>lat = 0, lon = 0\<rparr> \<lparr>lat = 1, lon = 1\<rparr>)) = 12"
  by (simp add: fallback_with_current fallback_without_current nearest_to_origin
      length_generateFallbackRoute completionPoint_fallback initial_state_def)

text \<open>
  Claim C2 says that with no current coordinate the completed prefix of a route of
  \<open>N\<close> points has \<open>\<lfloor>N \<times> 0.6\<rfloor>\<close> points, on the fallback path too. At a rejected
  fetch with no current coordinate, from the initial state, the full route has 21
  points and \<open>\<lfloor>21 \<times> 0.6\<rfloor> = 12\<close>, but the completed route has no point. (On the
  fetched path the length is as claimed: \<open>fetched_without_current_length\<close>.)
\<close>

theorem fallback_leaves_completed_route_empty:
  "length (routeData (fetchRoadRoute \<lparr>lat = 0, lon = 0\<rparr> \<lparr>lat = 1, lon = 1\<rparr>
        None FetchRejected initial_state)) = 21
   \<and> nat \<lfloor>real 21 * 0.6\<rfloor> = 12
   \<and> length (completedRoute (fetchRoadRoute \<lparr>lat = 0, lon = 0\<rparr> \<lparr>lat = 1, lon = 1\<rparr>
        None FetchRejected initial_state)) = 0"
proof -
  have "routeData (fetchRoadRoute \<lparr>lat = 0, lon = 0\<rparr> \<lparr>lat = 1, lon = 1\<rparr>
        None FetchRejected initial_state)
      = generateFallbackRoute \<lparr>lat = 0, lon = 0\<rparr> \<lparr>lat = 1, lon = 1\<rparr>"
    by (simp add: fetchRoadRoute_failure [OF try_FetchRejected] routeData_catch)
  moreover have "nat \<lfloor>real 21 * 0.6\<rfloor> = 12"
    by simp
  ultimately show ?thesis
    by (simp add: length_generateFallbackRoute fallback_without_current initial_state_def)
qed

text \<open>
  Claim C8 says that after every resolution the completed route is a prefix of the
  full route. Two resolutions in a row, both from \<open>(0, 0)\<close> to \<open>(4, 4)\<close> with no
  current coordinate: the first fetches the route \<open>[(0, 1), (4, 4)]\<close> and completes
  \<open>[(0, 1)]\<close>; the second is rejected, sets the full route to the fallback route and
  leaves the completed route as it was. No prefix of the fallback route is \<open>[(0, 1)]\<close>.
\<close>

theorem stale_completed_route_not_prefix:
  "routeData
     (fetchRoadRoute \<lparr>lat = 0, lon = 0\<rparr> \<lparr>lat = 4, lon = 4\<rparr> None FetchRejected
       (fetchRoadRoute \<lparr>lat = 0, lon = 0\<rparr> \<lparr>lat = 4, lon = 4\<rparr> None
         (Response True (Some \<lparr>code = ''Ok'', routes = Some [OsrmRoute (Some [(1, 0), (4, 4)])]\<rparr>))
         initial_state))
     = generateFallbackRoute \<lparr>lat = 0, lon = 0\<rparr> \<lparr>lat = 4, lon = 4\<rparr>
   \<and> completedRoute
     (fetchRoadRoute \<lparr>lat = 0, lon = 0\<rparr> \<lparr>lat = 4, lon = 4\<rparr> None FetchRejected
       (fetchRoadRoute \<lparr>lat = 0, lon = 0\<rparr> \<lparr>lat = 4, lon = 4\<rparr> None
         (Response True (Some \<lparr>code = ''Ok'', routes = Some [OsrmRoute (Some [(1, 0), (4, 4)])]\<rparr>))
         initial_state))
     = [(0, 1)]
   \<and> (\<forall>k. take k (generateFallbackRoute \<lparr>lat = 0, lon = 0\<rparr> \<lparr>lat = 4, lon = 4\<rparr>) \<noteq> [(0, 1)])"
proof -
  let ?from = "\<lparr>lat = 0, lon = 0\<rparr>" and ?to = "\<lparr>lat = 4, lon = 4\<rparr>"
  let ?s = "fetchRoadRoute ?from ?to None
         (Response True (Some \<lparr>code = ''Ok'', routes = Some [OsrmRoute (Some [(1, 0), (4, 4)])]\<rparr>))
         initial_state"
  have rd: "routeData (fetchRoadRoute ?from ?to None FetchRejected ?s) = generateFallbackRoute ?from ?to"
    by (simp add: fetchRoadRoute_failure [OF try_FetchRejected] routeData_catch)
  have "completionPoint [(0, 1), (4, 4)] = 1"
    by (simp add: completionPoint_div)
  then have "completedRoute ?s = [(0, 1)]"
    by (simp add: fetched_without_current toLatLng_def)
  then have cr: "completedRoute (fetchRoadRoute ?from ?to None FetchRejected ?s) = [(0, 1)]"
    by (simp add: fallback_without_current)
  have "take k (generateFallbackRoute ?from ?to) \<noteq> [(0, 1)]" for k
  proof
    assume eq: "take k (generateFallbackRoute ?from ?to) = [(0, 1)]"
    then have "0 < k" by (cases k) auto
    then have "hd (take k (generateFallbackRoute ?from ?to)) = hd (generateFallbackRoute ?from ?to)"
      by (simp add: hd_take)
    with eq show False
      by (simp add: hd_generateFallbackRoute)
  qed
  with rd cr show ?thesis by blast
qed

lemma take_is_bounded_prefix: "\<exists>k\<le>length xs. take n xs = take k xs"
proof
  show "min n (length xs) \<le> length xs \<and> take n xs = take (min n (length xs)) xs"
    by (simp add: min_def)
qed

text \<open>
  From a state whose completed route is empty, as the initial state is, every
  resolution ends with the completed route a prefix of the full route.
\<close>

lemma prefix_after_first_resolution:
  assumes "completedRoute s = []"
  shows "\<exists>k\<le>length (routeData (fetchRoadRoute from to current response s)).
           completedRoute (fetchRoadRoute from to current response s)
             = take k (routeData (fetchRoadRoute from to current response s))"
proof (cases "fetchRoadRoute_try current response (s\<lparr>isLoading := True\<rparr>)")
  case (Inl err)
  have res: "fetchRoadRoute from to current response s
      = (fetchRoadRoute_catch from to current (s\<lparr>isLoading := True\<rparr>))\<lparr>isLoading := False\<rparr>"
    by (rule fetchRoadRoute_failure [OF Inl])
  show ?thesis
  proof (cases current)
    case None
    have "completedRoute (fetchRoadRoute_catch from to None (s\<lparr>isLoading := True\<rparr>)) = []"
      using assms by (simp add: completedRoute_catch_None)
    then have "completedRoute (fetchRoadRoute from to current response s)
        = take 0 (routeData (fetchRoadRoute from to current response s))"
      unfolding res by (simp add: None)
    then show ?thesis by blast
  next
    case (Some c)
    show ?thesis
      unfolding res
      using take_is_bounded_prefix [of "generateFallbackRoute from to"]
      by (simp add: Some completedRoute_catch_Some routeData_catch)
  qed
next
  case (Inr s')
  then obtain geometry where
    s': "s' = (case current of
            Some c \<Rightarrow> calculateCompletedRoute current (map toLatLng geometry)
                        (s\<lparr>isLoading := True, routeData := map toLatLng geometry\<rparr>)
          | None \<Rightarrow> s\<lparr>isLoading := True, routeData := map toLatLng geometry,
                      completedRoute := take (completionPoint (map toLatLng geometry))
                                          (map toLatLng geometry)\<rparr>)"
    by (auto simp: fetchRoadRoute_try_def Let_def
        split: osrm_fetch.splits if_splits option.splits list.splits)
  have res: "fetchRoadRoute from to current response s = s'\<lparr>isLoading := False\<rparr>"
    using Inr by (simp add: fetchRoadRoute_def)
  let ?coords = "map toLatLng geometry"
  show ?thesis
    unfolding res
  proof (cases current)
    case None
    show "\<exists>k\<le>length (routeData (s'\<lparr>isLoading := False\<rparr>)).
            completedRoute (s'\<lparr>isLoading := False\<rparr>) = take k (routeData (s'\<lparr>isLoading := False\<rparr>))"
      using take_is_bounded_prefix [of ?coords "completionPoint ?coords"]
      by (simp add: s' None)
  next
    case (Some c)
    show "\<exists>k\<le>length (routeData (s'\<lparr>isLoading := False\<rparr>)).
            completedRoute (s'\<lparr>isLoading := False\<rparr>) = take k (routeData (s'\<lparr>isLoading := False\<rparr>))"
    proof (cases "geometry = []")
      case True
      then have "completedRoute (s'\<lparr>isLoading := False\<rparr>) = take 0 (routeData (s'\<lparr>isLoading := False\<rparr>))"
        using assms by (simp add: s' Some calculateCompletedRoute_def)
      then show ?thesis
        by blast
    next
      case False
      then show ?thesis
        using take_is_bounded_prefix [of ?coords "closestPointIndex c ?coords + 1"]
        by (simp add: s' Some calculateCompletedRoute_def)
    qed
  qed
qed

subsection \<open>Geocoding and the tracking page\<close>

text \<open>
  Claim C7. A search that returns zero results is a reported failure: the library
  lookup is rejected with "Address not found" and the page's helper returns
  \<^verbatim>\<open>null\<close>. When there are results, both return the first result's latitude and
  longitude as \<^verbatim>\<open>parseFloat\<close> reads them.
\<close>

theorem geocoding_zero_results:
  "getCoordinatesFromAddress parseFloat (Body (JArray [])) = Inl AddressNotFound
   \<and> getCoords parseFloat (Body (JArray [])) = Inr None
   \<and> getCoordinatesFromAddress parseFloat (Body (JArray (c # cs)))
       = Inr \<lparr>lat = parseFloat (lat_text c), lon = parseFloat (lon_text c)\<rparr>
   \<and> getCoords parseFloat (Body (JArray (c # cs)))
       = Inr (Some \<lparr>lat = parseFloat (lat_text c), lon = parseFloat (lon_text c)\<rparr>)"
  by (simp add: getCoordinatesFromAddress_def getCoords_def getCoords_try_def)

lemma getCoords_never_rejects: "\<exists>v. getCoords parseFloat res = Inr v"
  by (simp add: getCoords_def split: sum.split)

lemma getCoords_failure: "getCoords_try parseFloat res = Inl err \<Longrightarrow> getCoords parseFloat res = Inr None"
  by (simp add: getCoords_def)

lemma fetchCoordinates_try_Inr:
  "\<exists>o' d' c'.
     getCoords parseFloat (search (origin mockShipmentData)) = Inr o'
     \<and> getCoords parseFloat (search (destination mockShipmentData)) = Inr d'
     \<and> getCoords parseFloat (search (currentLocation mockShipmentData)) = Inr c'
     \<and> fetchCoordinates_try parseFloat search s
         = Inr (s\<lparr>shipmentData :=
                    (case shipmentData s of
                       None \<Rightarrow> None
                     | Some prev \<Rightarrow>
                         Some (prev\<lparr>fromCoords := o', toCoords := d', currentCoords := c'\<rparr>)),
                  mapLoaded := True\<rparr>)"
proof -
  obtain o' where o: "getCoords parseFloat (search (origin mockShipmentData)) = Inr o'"
    using getCoords_never_rejects by blast
  obtain d' where d: "getCoords parseFloat (search (destination mockShipmentData)) = Inr d'"
    using getCoords_never_rejects by blast
  obtain c' where c: "getCoords parseFloat (search (currentLocation mockShipmentData)) = Inr c'"
    using getCoords_never_rejects by blast
  show ?thesis
    using o d c by (simp add: fetchCoordinates_try_def)
qed

text \<open>
  Claim C10. \<^verbatim>\<open>getCoords\<close> never rejects, and returns \<^verbatim>\<open>null\<close> whenever its \<^verbatim>\<open>try\<close>
  block throws; so the \<^verbatim>\<open>try\<close> block of \<^verbatim>\<open>fetchCoordinates\<close> never throws, its
  \<^verbatim>\<open>catch\<close> block is not reached and the page's error is left as it was. Each
  coordinate of the updated shipment is what \<^verbatim>\<open>getCoords\<close> returned for its place,
  \<^verbatim>\<open>null\<close> on a failure. The map card is rendered only when the shipment is there
  with both its origin and its destination coordinates.
\<close>

theorem fetchCoordinates_catch_unreachable:
  "(\<exists>v. getCoords parseFloat res = Inr v)
   \<and> (getCoords_try parseFloat res = Inl err \<longrightarrow> getCoords parseFloat res = Inr None)
   \<and> (\<exists>s'. fetchCoordinates_try parseFloat search s = Inr s')
   \<and> pageError (fetchCoordinates parseFloat search s) = pageError s
   \<and> (shipmentData s = Some prev \<longrightarrow>
        (\<exists>d. shipmentData (fetchCoordinates parseFloat search s) = Some d
           \<and> getCoords parseFloat (search (origin mockShipmentData)) = Inr (fromCoords d)
           \<and> getCoords parseFloat (search (destination mockShipmentData)) = Inr (toCoords d)
           \<and> getCoords parseFloat (search (currentLocation mockShipmentData))
               = Inr (currentCoords d)))
   \<and> (mapCardRendered s2 \<longrightarrow>
        (\<exists>d f t. shipmentData s2 = Some d \<and> fromCoords d = Some f \<and> toCoords d = Some t))"
proof -
  obtain o' d' c' where
    o: "getCoords parseFloat (search (origin mockShipmentData)) = Inr o'" and
    d: "getCoords parseFloat (search (destination mockShipmentData)) = Inr d'" and
    c: "getCoords parseFloat (search (currentLocation mockShipmentData)) = Inr c'" and
    t: "fetchCoordinates_try parseFloat search s
         = Inr (s\<lparr>shipmentData :=
                    (case shipmentData s of
                       None \<Rightarrow> None
                     | Some prev \<Rightarrow>
                         Some (prev\<lparr>fromCoords := o', toCoords := d', currentCoords := c'\<rparr>)),
                  mapLoaded := True\<rparr>)"
    using fetchCoordinates_try_Inr [of parseFloat search s] by blast
  have 1: "\<exists>v. getCoords parseFloat res = Inr v"
    by (rule getCoords_never_rejects)
  have 2: "getCoords_try parseFloat res = Inl err \<longrightarrow> getCoords parseFloat res = Inr None"
    by (simp add: getCoords_failure)
  have 3: "\<exists>s'. fetchCoordinates_try parseFloat search s = Inr s'"
    using t by blast
  have 4: "pageError (fetchCoordinates parseFloat search s) = pageError s"
    by (simp add: fetchCoordinates_def t)
  have 5: "shipmentData s = Some prev \<longrightarrow>
        (\<exists>d. shipmentData (fetchCoordinates parseFloat search s) = Some d
           \<and> getCoords parseFloat (search (origin mockShipmentData)) = Inr (fromCoords d)
           \<and> getCoords parseFloat (search (destination mockShipmentData)) = Inr (toCoords d)
           \<and> getCoords parseFloat (search (currentLocation mockShipmentData))
               = Inr (currentCoords d))"
    by (simp add: fetchCoordinates_def t o d c)
  have 6: "mapCardRendered s2 \<longrightarrow>
        (\<exists>d f t. shipmentData s2 = Some d \<and> fromCoords d = Some f \<and> toCoords d = Some t)"
    by (auto simp: mapCardRendered_def split: option.splits)
  from 1 2 3 4 5 6 show ?thesis by blast
qed

theorem fetchCoordinates_catch_unreachable_witness:
  "getCoords (\<lambda>text. 0) SearchRejected = Inr None
   \<and> pageError (fetchCoordinates (\<lambda>text. 0)
        (\<lambda>place. if place = ''New York, NY'' then SearchRejected
                  else Body (JArray [Candidate ''39.7'' ''-104.9'']))
        \<lparr>shipmentData = Some mockShipmentData, pageError = [], mapLoaded = False\<rparr>) = []
   \<and> map_option fromCoords (shipmentData (fetchCoordinates (\<lambda>text. 0)
        (\<lambda>place. if place = ''New York, NY'' then SearchRejected
                  else Body (JArray [Candidate ''39.7'' ''-104.9'']))
        \<lparr>shipmentData = Some mockShipmentData, pageError = [], mapLoaded = False\<rparr>))
       = Some None
   \<and> map_option toCoords (shipmentData (fetchCoordinates (\<lambda>text. 0)
        (\<lambda>place. if place = ''New York, NY'' then SearchRejected
                  else Body (JArray [Candidate ''39.7'' ''-104.9'']))
        \<lparr>shipmentData = Some mockShipmentData, pageError = [], mapLoaded = False\<rparr>))
       = Some (Some \<lparr>lat = 0, lon = 0\<rparr>)
   \<and> mapCardRendered
        \<lparr>shipmentData = Some (mockShipmentData\<lparr>fromCoords := Some \<lparr>lat = 1, lon = 2\<rparr>,
                                               toCoords := Some \<lparr>lat = 3, lon = 4\<rparr>\<rparr>),
         pageError = [], mapLoaded = True\<rparr>"
proof -
  let ?pf = "\<lambda>text :: string. 0 :: real"
  let ?search = "\<lambda>place. if place = ''New York, NY'' then SearchRejected
                  else Body (JArray [Candidate ''39.7'' ''-104.9''])"
  let ?s = "\<lparr>shipmentData = Some mockShipmentData, pageError = [], mapLoaded = False\<rparr>"
  let ?s2 = "\<lparr>shipmentData = Some (mockShipmentData\<lparr>fromCoords := Some \<lparr>lat = 1, lon = 2\<rparr>,
                                               toCoords := Some \<lparr>lat = 3, lon = 4\<rparr>\<rparr>),
         pageError = [], mapLoaded = True\<rparr>"
  have h1: "getCoords_try ?pf SearchRejected = Inl NetworkError"
    by (simp add: getCoords_try_def)
  have h2: "shipmentData ?s = Some mockShipmentData"
    by simp
  have h3: "mapCardRendered ?s2"
    by (simp add: mapCardRendered_def)
  have g1: "getCoords ?pf (?search (origin mockShipmentData)) = Inr None"
    by (simp add: getCoords_def getCoords_try_def mockShipmentData_def)
  have g2: "getCoords ?pf (?search (destination mockShipmentData)) = Inr (Some \<lparr>lat = 0, lon = 0\<rparr>)"
    by (simp add: getCoords_def getCoords_try_def mockShipmentData_def)
  note inst = fetchCoordinates_catch_unreachable
      [of ?pf SearchRejected NetworkError ?search ?s mockShipmentData ?s2]
  from inst h1 have a: "getCoords ?pf SearchRejected = Inr None"
    by blast
  from inst have b: "pageError (fetchCoordinates ?pf ?search ?s) = []"
    by simp
  from inst h2 obtain d where
    d: "shipmentData (fetchCoordinates ?pf ?search ?s) = Some d"
      "getCoords ?pf (?search (origin mockShipmentData)) = Inr (fromCoords d)"
      "getCoords ?pf (?search (destination mockShipmentData)) = Inr (toCoords d)"
    by blast
  from d g1 g2 have c: "fromCoords d = None" "toCoords d = Some \<lparr>lat = 0, lon = 0\<rparr>"
    by simp_all
  from a b c d(1) h3 show ?thesis
    by simp
qed

end
